theory Spec2Isabelle
  imports Complex_Main
begin

section \<open>JavaScript numbers\<close>

text \<open>
  Every \<^verbatim>\<open>number\<close> of \<^verbatim>\<open>src/index.ts\<close> that holds a measurement, a threshold or an
  average is a JavaScript number. The model keeps the four kinds of value that the
  program's comparisons and arithmetic tell apart: a finite value, the two infinities and
  NaN. Finite values are exact reals: the rounding of IEEE doubles, the overflow of a
  finite result to an infinity and the sign of zero are not modelled. The sign of zero
  cannot be observed by the program: its only divisor is a sum of counters, which is
  never a negative zero.
\<close>

datatype jsnum = Fin real | PInf | NInf | NaN

text \<open>\<^verbatim>\<open>a < b\<close>: false as soon as one side is NaN.\<close>

fun js_lt :: "jsnum \<Rightarrow> jsnum \<Rightarrow> bool" where
  "js_lt (Fin a) (Fin b) = (a < b)"
| "js_lt (Fin a) PInf = True"
| "js_lt NInf (Fin b) = True"
| "js_lt NInf PInf = True"
| "js_lt _ _ = False"

text \<open>\<^verbatim>\<open>a <= b\<close>: false as soon as one side is NaN.\<close>

fun js_le :: "jsnum \<Rightarrow> jsnum \<Rightarrow> bool" where
  "js_le (Fin a) (Fin b) = (a \<le> b)"
| "js_le (Fin a) PInf = True"
| "js_le NInf (Fin b) = True"
| "js_le NInf PInf = True"
| "js_le NInf NInf = True"
| "js_le PInf PInf = True"
| "js_le _ _ = False"

text \<open>\<^verbatim>\<open>a > b\<close> and \<^verbatim>\<open>a >= b\<close>.\<close>

definition js_gt :: "jsnum \<Rightarrow> jsnum \<Rightarrow> bool" where
  "js_gt a b = js_lt b a"

definition js_ge :: "jsnum \<Rightarrow> jsnum \<Rightarrow> bool" where
  "js_ge a b = js_le b a"

text \<open>\<^verbatim>\<open>a + b\<close>: NaN is absorbing and the two infinities cancel to NaN.\<close>

fun js_add :: "jsnum \<Rightarrow> jsnum \<Rightarrow> jsnum" where
  "js_add (Fin a) (Fin b) = Fin (a + b)"
| "js_add NaN _ = NaN"
| "js_add _ NaN = NaN"
| "js_add PInf NInf = NaN"
| "js_add NInf PInf = NaN"
| "js_add PInf _ = PInf"
| "js_add _ PInf = PInf"
| "js_add NInf _ = NInf"
| "js_add _ NInf = NInf"

fun js_uminus :: "jsnum \<Rightarrow> jsnum" where
  "js_uminus (Fin a) = Fin (- a)"
| "js_uminus PInf = NInf"
| "js_uminus NInf = PInf"
| "js_uminus NaN = NaN"

text \<open>\<^verbatim>\<open>a - b\<close>.\<close>

definition js_sub :: "jsnum \<Rightarrow> jsnum \<Rightarrow> jsnum" where
  "js_sub a b = js_add a (js_uminus b)"

fun js_negative :: "jsnum \<Rightarrow> bool" where
  "js_negative (Fin a) = (a < 0)"
| "js_negative NInf = True"
| "js_negative _ = False"

text \<open>\<^verbatim>\<open>a * b\<close>: an infinity times zero is NaN, otherwise the signs multiply.\<close>

fun js_mul :: "jsnum \<Rightarrow> jsnum \<Rightarrow> jsnum" where
  "js_mul (Fin a) (Fin b) = Fin (a * b)"
| "js_mul NaN _ = NaN"
| "js_mul _ NaN = NaN"
| "js_mul x y =
     (if x = Fin 0 \<or> y = Fin 0 then NaN
      else if js_negative x = js_negative y then PInf else NInf)"

text \<open>
  \<^verbatim>\<open>a / n\<close> for a counter sum \<open>n\<close>, the only divisor of the program. JavaScript raises
  no error on a zero divisor: a non-zero finite numerator gives an infinity of its sign
  and zero gives NaN.
\<close>

fun js_div_count :: "jsnum \<Rightarrow> nat \<Rightarrow> jsnum" where
  "js_div_count (Fin a) n =
     (if n = 0 then (if a = 0 then NaN else if 0 < a then PInf else NInf)
      else Fin (a / real n))"
| "js_div_count PInf n = PInf"
| "js_div_count NInf n = NInf"
| "js_div_count NaN n = NaN"

text \<open>\<^verbatim>\<open>x ?? 0\<close> on a nullable or optional number.\<close>

fun nullish0 :: "jsnum option \<Rightarrow> jsnum" where
  "nullish0 None = Fin 0"
| "nullish0 (Some v) = v"

section \<open>Data model\<close>

text \<open>
  The interfaces of \<^verbatim>\<open>src/index.ts\<close>, lines 1 to 45. The counters of
  \<^verbatim>\<open>BloodSugarCounters\<close> carry the names of the thresholds of \<^verbatim>\<open>BloodSugarRange\<close>
  in the source; the model suffixes them with \<open>Count\<close>. The field \<^verbatim>\<open>range\<close> of the
  state is \<open>range_bs\<close> here, since \<open>range\<close> is a constant of HOL. Counters start at zero
  and are only ever incremented, so they are natural numbers. A nullable number is an
  option, and so is an optional property of \<^verbatim>\<open>BloodSugarTimeStats\<close>: \<^verbatim>\<open>??\<close> treats a
  missing property and an undefined one alike.
\<close>

record BloodSugarRange =
  veryHigh :: jsnum
  high :: "jsnum \<times> jsnum"
  normal :: "jsnum \<times> jsnum"
  low :: jsnum

record BloodSugarCounters =
  veryHighCount :: nat
  highCount :: nat
  normalCount :: nat
  lowCount :: nat

datatype TimeCategory =
  beforeBreakfast | afterBreakfast | beforeLunch | afterLunch
  | beforeDinner | afterDinner | beforeSleep | randomTime

type_synonym BloodSugarTimeStats = "TimeCategory \<rightharpoonup> jsnum"

record BloodSugarPeriodStats =
  startDate :: string
  endDate :: string
  average :: "jsnum option"
  highest :: "jsnum option"
  lowest :: "jsnum option"
  counters :: BloodSugarCounters
  timeStats :: BloodSugarTimeStats

record BloodSugarAppState =
  range_bs :: BloodSugarRange
  statsByPeriod :: "string \<rightharpoonup> BloodSugarPeriodStats"
  currentPeriod :: string

datatype js_error = TypeError | InvalidPeriod

section \<open>Property lookup\<close>

text \<open>
  \<^verbatim>\<open>state.statsByPeriod\<close> is a plain object: \<^verbatim>\<open>state.statsByPeriod[key]\<close> reads an
  own property first and then the properties that every plain object inherits from
  \<^verbatim>\<open>Object.prototype\<close>. An inherited property is a function (or, for \<^verbatim>\<open>__proto__\<close>, the
  prototype object): it is truthy and has no \<^verbatim>\<open>counters\<close>. The map of the state holds
  the own properties.
\<close>

definition Object_prototype_keys :: "string list" where
  "Object_prototype_keys =
     [''constructor'', ''__defineGetter__'', ''__defineSetter__'', ''hasOwnProperty'',
      ''__lookupGetter__'', ''__lookupSetter__'', ''isPrototypeOf'',
      ''propertyIsEnumerable'', ''toString'', ''valueOf'', ''__proto__'',
      ''toLocaleString'']"

datatype 'a js_property = Own 'a | Inherited | Undefined

definition getProperty :: "(string \<rightharpoonup> 'a) \<Rightarrow> string \<Rightarrow> 'a js_property" where
  "getProperty obj key =
     (case obj key of
        Some p \<Rightarrow> Own p
      | None \<Rightarrow> if key \<in> set Object_prototype_keys then Inherited else Undefined)"

section \<open>The initial state\<close>

text \<open>
  \<^verbatim>\<open>initialState\<close>, lines 55 to 121. \<^verbatim>\<open>calculateDateOffset\<close> reads the clock, so the
  model takes it as a parameter.
\<close>

definition zeroCounters :: BloodSugarCounters where
  "zeroCounters = \<lparr>veryHighCount = 0, highCount = 0, normalCount = 0, lowCount = 0\<rparr>"

definition emptyPeriod :: "string \<Rightarrow> string \<Rightarrow> BloodSugarPeriodStats" where
  "emptyPeriod start end_date =
     \<lparr>startDate = start, endDate = end_date, average = None, highest = None,
      lowest = None, counters = zeroCounters, timeStats = Map.empty\<rparr>"

definition defaultRange :: BloodSugarRange where
  "defaultRange =
     \<lparr>veryHigh = Fin 9, high = (Fin 6, Fin 9), normal = (Fin 4, Fin 6), low = Fin 4\<rparr>"

definition initialState :: "(nat \<Rightarrow> string) \<Rightarrow> BloodSugarAppState" where
  "initialState calculateDateOffset =
     \<lparr>range_bs = defaultRange,
      statsByPeriod =
        [''7'' \<mapsto> emptyPeriod (calculateDateOffset 7) (calculateDateOffset 0),
         ''14'' \<mapsto> emptyPeriod (calculateDateOffset 14) (calculateDateOffset 0),
         ''30'' \<mapsto> emptyPeriod (calculateDateOffset 30) (calculateDateOffset 0),
         ''90'' \<mapsto> emptyPeriod (calculateDateOffset 90) (calculateDateOffset 0)],
      currentPeriod = ''7''\<rparr>"

section \<open>addMeasurement\<close>

text \<open>Lines 128 to 136: the first test that holds increments its counter.\<close>

definition updateCounters :: "BloodSugarRange \<Rightarrow> jsnum \<Rightarrow> BloodSugarCounters \<Rightarrow> BloodSugarCounters" where
  "updateCounters r level c =
     (if js_gt level (veryHigh r) then c\<lparr>veryHighCount := veryHighCount c + 1\<rparr>
      else if js_ge level (fst (high r)) \<and> js_le level (snd (high r))
        then c\<lparr>highCount := highCount c + 1\<rparr>
      else if js_ge level (fst (normal r)) \<and> js_le level (snd (normal r))
        then c\<lparr>normalCount := normalCount c + 1\<rparr>
      else if js_lt level (low r) then c\<lparr>lowCount := lowCount c + 1\<rparr>
      else c)"

text \<open>Lines 139 to 144.\<close>

definition updateHighest :: "jsnum \<Rightarrow> jsnum option \<Rightarrow> jsnum option" where
  "updateHighest level h =
     (case h of None \<Rightarrow> Some level
      | Some x \<Rightarrow> if js_gt level x then Some level else Some x)"

definition updateLowest :: "jsnum \<Rightarrow> jsnum option \<Rightarrow> jsnum option" where
  "updateLowest level l =
     (case l of None \<Rightarrow> Some level
      | Some x \<Rightarrow> if js_lt level x then Some level else Some x)"

text \<open>Lines 147 to 149.\<close>

definition totalMeasurements :: "BloodSugarCounters \<Rightarrow> nat" where
  "totalMeasurements c = veryHighCount c + highCount c + normalCount c + lowCount c"

definition updateAverage :: "jsnum \<Rightarrow> nat \<Rightarrow> jsnum option \<Rightarrow> jsnum" where
  "updateAverage level measured avg =
     js_div_count (js_add (js_mul (nullish0 avg) (Fin (real measured - 1))) level) measured"

text \<open>
  Lines 153 to 158. \<^verbatim>\<open>Object.values(period.timeStats)\<close> lists the values in insertion
  order, which the map does not record; the model sums them in the order of the
  interface. The sum of exact values does not depend on the order
  (\<open>js_add_commute\<close>, \<open>js_add_assoc\<close> below).
\<close>

definition timeCategories :: "TimeCategory list" where
  "timeCategories =
     [beforeBreakfast, afterBreakfast, beforeLunch, afterLunch,
      beforeDinner, afterDinner, beforeSleep, randomTime]"

definition Object_values :: "BloodSugarTimeStats \<Rightarrow> jsnum list" where
  "Object_values ts = List.map_filter ts timeCategories"

definition totalForCategory :: "BloodSugarTimeStats \<Rightarrow> jsnum" where
  "totalForCategory ts = foldl js_add (Fin 0) (Object_values ts)"

definition updateTimeStat :: "jsnum \<Rightarrow> nat \<Rightarrow> BloodSugarTimeStats \<Rightarrow> TimeCategory \<Rightarrow> jsnum" where
  "updateTimeStat level measured ts timeCategory =
     js_div_count
       (js_add (js_mul (nullish0 (ts timeCategory)) (js_sub (totalForCategory ts) (Fin 1))) level)
       measured"

text \<open>
  The body of \<^verbatim>\<open>addMeasurement\<close> once \<^verbatim>\<open>period\<close> is a statistics record, in the order
  of the source: counters, highest and lowest, average, time statistics.
\<close>

definition updatePeriod :: "BloodSugarRange \<Rightarrow> jsnum \<Rightarrow> TimeCategory option \<Rightarrow> BloodSugarPeriodStats \<Rightarrow> BloodSugarPeriodStats" where
  "updatePeriod r level timeCategory period =
     (let p1 = period\<lparr>counters := updateCounters r level (counters period)\<rparr>;
          p2 = p1\<lparr>highest := updateHighest level (highest p1)\<rparr>;
          p3 = p2\<lparr>lowest := updateLowest level (lowest p2)\<rparr>;
          measured = totalMeasurements (counters p3);
          p4 = p3\<lparr>average := Some (updateAverage level measured (average p3))\<rparr>
      in case timeCategory of
           None \<Rightarrow> p4
         | Some c \<Rightarrow> p4\<lparr>timeStats := (timeStats p4)(c \<mapsto> updateTimeStat level measured (timeStats p4) c)\<rparr>)"

text \<open>
  \<^verbatim>\<open>addMeasurement\<close>, lines 124 to 162. When \<^verbatim>\<open>state.statsByPeriod[state.currentPeriod]\<close>
  is undefined, reading a property of \<^verbatim>\<open>period\<close> throws a TypeError; when it is an
  inherited property, \<^verbatim>\<open>period.counters\<close> is undefined and reading a counter throws a
  TypeError (in the matching branch of the classification, or at line 148). Here the
  state is a value that owns its statistics records, and the writes into \<^verbatim>\<open>period\<close> are
  the replacement of the current period's entry. The source writes in place: the section
  on the store below models that, and the two models agree on every state in which no
  other label shares an object with the current period
  (\<open>addMeasurement_store_refines\<close>), which is every state reached from the initial one
  (\<open>reachable_no_sharing\<close>).
\<close>

definition addMeasurement :: "BloodSugarAppState \<Rightarrow> jsnum \<Rightarrow> TimeCategory option \<Rightarrow> js_error + BloodSugarAppState" where
  "addMeasurement state level timeCategory =
     (case getProperty (statsByPeriod state) (currentPeriod state) of
        Own period \<Rightarrow>
          Inr (state\<lparr>statsByPeriod :=
                 (statsByPeriod state)(currentPeriod state \<mapsto>
                    updatePeriod (range_bs state) level timeCategory period)\<rparr>)
      | Inherited \<Rightarrow> Inl TypeError
      | Undefined \<Rightarrow> Inl TypeError)"

section \<open>getCurrentPeriodStats and switchPeriod\<close>

text \<open>Lines 165 to 167: a property read, with no check.\<close>

definition getCurrentPeriodStats :: "BloodSugarAppState \<Rightarrow> BloodSugarPeriodStats js_property" where
  "getCurrentPeriodStats state = getProperty (statsByPeriod state) (currentPeriod state)"

text \<open>
  Lines 170 to 175: the guard is the truthiness of the property read. A statistics
  record and an inherited property are truthy, \<^verbatim>\<open>undefined\<close> is not.
\<close>

definition switchPeriod :: "BloodSugarAppState \<Rightarrow> string \<Rightarrow> js_error + BloodSugarAppState" where
  "switchPeriod state period =
     (case getProperty (statsByPeriod state) period of
        Undefined \<Rightarrow> Inl InvalidPeriod
      | Own p \<Rightarrow> Inr (state\<lparr>currentPeriod := period\<rparr>)
      | Inherited \<Rightarrow> Inr (state\<lparr>currentPeriod := period\<rparr>))"

text \<open>A sequence of calls stops at the first one that throws.\<close>

datatype call = AddMeasurement jsnum "TimeCategory option" | SwitchPeriod string

fun run_call :: "BloodSugarAppState \<Rightarrow> call \<Rightarrow> js_error + BloodSugarAppState" where
  "run_call s (AddMeasurement level timeCategory) = addMeasurement s level timeCategory"
| "run_call s (SwitchPeriod period) = switchPeriod s period"

fun run_calls :: "BloodSugarAppState \<Rightarrow> call list \<Rightarrow> js_error + BloodSugarAppState" where
  "run_calls s [] = Inr s"
| "run_calls s (c # cs) =
     (case run_call s c of Inl e \<Rightarrow> Inl e | Inr s' \<Rightarrow> run_calls s' cs)"

section \<open>The statistics records as objects of a store\<close>

text \<open>
  The source copies no statistics record. Line 125 takes the record of the current period
  by reference, lines 128 to 158 write into it, into its counters object and into its time
  statistics object, and line 161 puts the same reference into the new mapping. A state
  that reaches one record, one counters object or one time statistics object under two
  labels is well typed, and on such a state a write into the current period shows under
  the other label too. This section models the three kinds of object that the source
  writes into as objects of a store. The thresholds and the two objects that line 161
  creates are never written into and stay values. Every reference denotes an object, and
  \<^verbatim>\<open>addMeasurement\<close> creates none of the three kinds.
\<close>

type_synonym ref = nat

record PeriodObject =
  startDateOf :: string
  endDateOf :: string
  averageOf :: "jsnum option"
  highestOf :: "jsnum option"
  lowestOf :: "jsnum option"
  countersRef :: ref
  timeStatsRef :: ref

record store =
  periodAt :: "ref \<Rightarrow> PeriodObject"
  countersAt :: "ref \<Rightarrow> BloodSugarCounters"
  timeStatsAt :: "ref \<Rightarrow> BloodSugarTimeStats"

record AppStateRefs =
  rangeOf :: BloodSugarRange
  periodRefs :: "string \<rightharpoonup> ref"
  currentPeriodOf :: string

text \<open>
  \<^verbatim>\<open>addMeasurement\<close>, lines 124 to 162, write by write: the counters object (lines 128
  to 136), the fields \<^verbatim>\<open>highest\<close>, \<^verbatim>\<open>lowest\<close> and \<^verbatim>\<open>average\<close> of the record (lines
  139 to 149), the time statistics object (lines 152 to 159). The result holds the
  reference it read.
\<close>

definition addMeasurement_store :: "store \<Rightarrow> AppStateRefs \<Rightarrow> jsnum \<Rightarrow> TimeCategory option \<Rightarrow> js_error + (store \<times> AppStateRefs)" where
  "addMeasurement_store st state level timeCategory =
     (case getProperty (periodRefs state) (currentPeriodOf state) of
        Own r \<Rightarrow>
          (let cr = countersRef (periodAt st r);
               st1 = st\<lparr>countersAt :=
                        (countersAt st)(cr := updateCounters (rangeOf state) level (countersAt st cr))\<rparr>;
               st2 = st1\<lparr>periodAt :=
                        (periodAt st1)(r := (periodAt st1 r)
                           \<lparr>highestOf := updateHighest level (highestOf (periodAt st1 r))\<rparr>)\<rparr>;
               st3 = st2\<lparr>periodAt :=
                        (periodAt st2)(r := (periodAt st2 r)
                           \<lparr>lowestOf := updateLowest level (lowestOf (periodAt st2 r))\<rparr>)\<rparr>;
               measured = totalMeasurements (countersAt st3 (countersRef (periodAt st3 r)));
               st4 = st3\<lparr>periodAt :=
                        (periodAt st3)(r := (periodAt st3 r)
                           \<lparr>averageOf :=
                              Some (updateAverage level measured (averageOf (periodAt st3 r)))\<rparr>)\<rparr>;
               st5 = (case timeCategory of
                        None \<Rightarrow> st4
                      | Some c \<Rightarrow>
                          (let tr = timeStatsRef (periodAt st4 r)
                           in st4\<lparr>timeStatsAt :=
                                 (timeStatsAt st4)(tr := (timeStatsAt st4 tr)(c \<mapsto>
                                    updateTimeStat level measured (timeStatsAt st4 tr) c))\<rparr>))
           in Inr (st5, state\<lparr>periodRefs := (periodRefs state)(currentPeriodOf state \<mapsto> r)\<rparr>))
      | Inherited \<Rightarrow> Inl TypeError
      | Undefined \<Rightarrow> Inl TypeError)"

text \<open>\<^verbatim>\<open>switchPeriod\<close>, lines 170 to 175, writes into no object.\<close>

definition switchPeriod_store :: "store \<Rightarrow> AppStateRefs \<Rightarrow> string \<Rightarrow> js_error + (store \<times> AppStateRefs)" where
  "switchPeriod_store st state period =
     (case getProperty (periodRefs state) period of
        Undefined \<Rightarrow> Inl InvalidPeriod
      | Own r \<Rightarrow> Inr (st, state\<lparr>currentPeriodOf := period\<rparr>)
      | Inherited \<Rightarrow> Inr (st, state\<lparr>currentPeriodOf := period\<rparr>))"

fun run_call_store :: "store \<Rightarrow> AppStateRefs \<Rightarrow> call \<Rightarrow> js_error + (store \<times> AppStateRefs)" where
  "run_call_store st s (AddMeasurement level timeCategory) = addMeasurement_store st s level timeCategory"
| "run_call_store st s (SwitchPeriod period) = switchPeriod_store st s period"

fun run_calls_store :: "store \<Rightarrow> AppStateRefs \<Rightarrow> call list \<Rightarrow> js_error + (store \<times> AppStateRefs)" where
  "run_calls_store st s [] = Inr (st, s)"
| "run_calls_store st s (c # cs) =
     (case run_call_store st s c of
        Inl e \<Rightarrow> Inl e
      | Inr (st', s') \<Rightarrow> run_calls_store st' s' cs)"

text \<open>
  What a state holds in a store, as a value: every reference replaced by the object it
  denotes.
\<close>

definition readPeriod :: "store \<Rightarrow> ref \<Rightarrow> BloodSugarPeriodStats" where
  "readPeriod st r =
     \<lparr>startDate = startDateOf (periodAt st r), endDate = endDateOf (periodAt st r),
      average = averageOf (periodAt st r), highest = highestOf (periodAt st r),
      lowest = lowestOf (periodAt st r),
      counters = countersAt st (countersRef (periodAt st r)),
      timeStats = timeStatsAt st (timeStatsRef (periodAt st r))\<rparr>"

definition readState :: "store \<Rightarrow> AppStateRefs \<Rightarrow> BloodSugarAppState" where
  "readState st s =
     \<lparr>range_bs = rangeOf s,
      statsByPeriod = map_option (readPeriod st) \<circ> periodRefs s,
      currentPeriod = currentPeriodOf s\<rparr>"

text \<open>
  Two labels share when they hold the same record, or records with the same counters
  object or the same time statistics object.
\<close>

definition sharing :: "store \<Rightarrow> AppStateRefs \<Rightarrow> string \<Rightarrow> string \<Rightarrow> bool" where
  "sharing st s k k' =
     (case (periodRefs s k, periodRefs s k') of
        (Some r, Some r') \<Rightarrow>
          r = r' \<or> countersRef (periodAt st r) = countersRef (periodAt st r') \<or>
          timeStatsRef (periodAt st r) = timeStatsRef (periodAt st r')
      | _ \<Rightarrow> False)"

text \<open>
  \<^verbatim>\<open>initialState\<close>, lines 55 to 121, in the store: four records, each with a counters
  object and a time statistics object of its own.
\<close>

definition emptyPeriodObject :: "string \<Rightarrow> string \<Rightarrow> ref \<Rightarrow> ref \<Rightarrow> PeriodObject" where
  "emptyPeriodObject start end_date cr tr =
     \<lparr>startDateOf = start, endDateOf = end_date, averageOf = None, highestOf = None,
      lowestOf = None, countersRef = cr, timeStatsRef = tr\<rparr>"

definition initialStore :: "(nat \<Rightarrow> string) \<Rightarrow> store" where
  "initialStore calculateDateOffset =
     \<lparr>periodAt = (\<lambda>r.
        if r = 0 then emptyPeriodObject (calculateDateOffset 7) (calculateDateOffset 0) 0 0
        else if r = 1 then emptyPeriodObject (calculateDateOffset 14) (calculateDateOffset 0) 1 1
        else if r = 2 then emptyPeriodObject (calculateDateOffset 30) (calculateDateOffset 0) 2 2
        else emptyPeriodObject (calculateDateOffset 90) (calculateDateOffset 0) 3 3),
      countersAt = (\<lambda>r. zeroCounters),
      timeStatsAt = (\<lambda>r. Map.empty)\<rparr>"

definition initialStateRefs :: AppStateRefs where
  "initialStateRefs =
     \<lparr>rangeOf = defaultRange,
      periodRefs = [''7'' \<mapsto> 0, ''14'' \<mapsto> 1, ''30'' \<mapsto> 2, ''90'' \<mapsto> 3],
      currentPeriodOf = ''7''\<rparr>"

section \<open>The bands as the specification words them\<close>

text \<open>
  The specification names four bands and tests them in a fixed order: very high
  (\<^verbatim>\<open>level > veryHigh\<close>), high (\<^verbatim>\<open>high[0] <= level <= high[1]\<close>), normal
  (\<^verbatim>\<open>normal[0] <= level <= normal[1]\<close>), low (\<^verbatim>\<open>level < low\<close>). These
  definitions follow the specification's words, to be compared with \<open>updateCounters\<close>,
  which follows the source.
\<close>

datatype band = VeryHighBand | HighBand | NormalBand | LowBand

fun matchesBand :: "BloodSugarRange \<Rightarrow> jsnum \<Rightarrow> band \<Rightarrow> bool" where
  "matchesBand r level VeryHighBand = js_gt level (veryHigh r)"
| "matchesBand r level HighBand = (js_le (fst (high r)) level \<and> js_le level (snd (high r)))"
| "matchesBand r level NormalBand = (js_le (fst (normal r)) level \<and> js_le level (snd (normal r)))"
| "matchesBand r level LowBand = js_lt level (low r)"

definition firstMatchingBand :: "BloodSugarRange \<Rightarrow> jsnum \<Rightarrow> band option" where
  "firstMatchingBand r level =
     List.find (matchesBand r level) [VeryHighBand, HighBand, NormalBand, LowBand]"

fun bandCount :: "band \<Rightarrow> BloodSugarCounters \<Rightarrow> nat" where
  "bandCount VeryHighBand c = veryHighCount c"
| "bandCount HighBand c = highCount c"
| "bandCount NormalBand c = normalCount c"
| "bandCount LowBand c = lowCount c"

section \<open>Sample inputs\<close>

text \<open>
  A clock for the closed examples: \<^verbatim>\<open>calculateDateOffset\<close> as it answers on the first of
  April 2024. And thresholds that leave the levels between 6 and 7 in no band.
\<close>

definition exampleDateOffset :: "nat \<Rightarrow> string" where
  "exampleDateOffset days =
     (if days = 0 then ''2024-04-01'' else if days = 7 then ''2024-03-25''
      else if days = 14 then ''2024-03-18'' else if days = 30 then ''2024-03-02''
      else ''2024-01-02'')"

definition gapRange :: BloodSugarRange where
  "gapRange =
     \<lparr>veryHigh = Fin 9, high = (Fin 7, Fin 9), normal = (Fin 4, Fin 6), low = Fin 4\<rparr>"

text \<open>
  The current period of the initial state after the level 5.5 was recorded before
  breakfast (\<open>oneReadingState_reached\<close> below), and the state that holds it.
\<close>

definition oneReading :: BloodSugarPeriodStats where
  "oneReading =
     \<lparr>startDate = ''2024-03-25'', endDate = ''2024-04-01'', average = Some (Fin 5.5),
      highest = Some (Fin 5.5), lowest = Some (Fin 5.5),
      counters = \<lparr>veryHighCount = 0, highCount = 0, normalCount = 1, lowCount = 0\<rparr>,
      timeStats = [beforeBreakfast \<mapsto> Fin 5.5]\<rparr>"

definition oneReadingState :: BloodSugarAppState where
  "oneReadingState =
     (initialState exampleDateOffset)
       \<lparr>statsByPeriod := (statsByPeriod (initialState exampleDateOffset))(''7'' \<mapsto> oneReading)\<rparr>"

text \<open>
  A state whose labels 7 and 14 hold the same record, to be read in the initial store.
\<close>

definition sharedStateRefs :: AppStateRefs where
  "sharedStateRefs =
     \<lparr>rangeOf = defaultRange,
      periodRefs = [''7'' \<mapsto> 0, ''14'' \<mapsto> 0, ''30'' \<mapsto> 2, ''90'' \<mapsto> 3],
      currentPeriodOf = ''7''\<rparr>"

section \<open>The running average of a category as the specification words it\<close>

text \<open>
  The specification gives the new average of a category as
  \<^verbatim>\<open>(oldCategoryAvg * (n - 1) + level) / n\<close>, with \<open>n\<close> the number of measurements of the
  period after the counter was incremented and 0 for a category with no entry. This
  definition follows the specification's words, to be compared with \<open>updateTimeStat\<close>.
\<close>

definition claimedTimeStat :: "jsnum option \<Rightarrow> nat \<Rightarrow> jsnum \<Rightarrow> jsnum" where
  "claimedTimeStat old n level =
     js_div_count (js_add (js_mul (nullish0 old) (Fin (real n - 1))) level) n"

section \<open>Arithmetic facts\<close>

lemma js_add_commute: "js_add a b = js_add b a"
  by (cases a; cases b) simp_all

lemma js_add_assoc: "js_add (js_add a b) c = js_add a (js_add b c)"
  by (cases a; cases b; cases c) simp_all

subsection \<open>updatePeriod, field by field\<close>

lemma counters_updatePeriod:
  "counters (updatePeriod r level tc p) = updateCounters r level (counters p)"
  by (simp add: updatePeriod_def Let_def split: option.split)

lemma highest_updatePeriod:
  "highest (updatePeriod r level tc p) = updateHighest level (highest p)"
  by (simp add: updatePeriod_def Let_def split: option.split)

lemma lowest_updatePeriod:
  "lowest (updatePeriod r level tc p) = updateLowest level (lowest p)"
  by (simp add: updatePeriod_def Let_def split: option.split)

lemma average_updatePeriod:
  "average (updatePeriod r level tc p) =
     Some (updateAverage level (totalMeasurements (updateCounters r level (counters p))) (average p))"
  by (simp add: updatePeriod_def Let_def split: option.split)

lemma timeStats_updatePeriod_None:
  "timeStats (updatePeriod r level None p) = timeStats p"
  by (simp add: updatePeriod_def Let_def)

lemma timeStats_updatePeriod_Some:
  "timeStats (updatePeriod r level (Some c) p) =
     (timeStats p)(c \<mapsto>
        updateTimeStat level (totalMeasurements (updateCounters r level (counters p))) (timeStats p) c)"
  by (simp add: updatePeriod_def Let_def)

lemma dates_updatePeriod:
  "startDate (updatePeriod r level tc p) = startDate p \<and>
   endDate (updatePeriod r level tc p) = endDate p"
  by (simp add: updatePeriod_def Let_def split: option.split)

subsection \<open>When the calls return\<close>

lemma addMeasurement_own:
  "statsByPeriod s (currentPeriod s) = Some p \<Longrightarrow>
   addMeasurement s level tc =
     Inr (s\<lparr>statsByPeriod :=
            (statsByPeriod s)(currentPeriod s \<mapsto> updatePeriod (range_bs s) level tc p)\<rparr>)"
  by (simp add: addMeasurement_def getProperty_def)

lemma addMeasurement_not_own:
  "statsByPeriod s (currentPeriod s) = None \<Longrightarrow> addMeasurement s level tc = Inl TypeError"
  by (simp add: addMeasurement_def getProperty_def)

lemma addMeasurement_returns_iff:
  "(\<exists>s'. addMeasurement s level tc = Inr s') = (currentPeriod s \<in> dom (statsByPeriod s))"
  by (auto simp: addMeasurement_def getProperty_def split: option.splits)

lemma switchPeriod_own:
  "statsByPeriod s period = Some p \<Longrightarrow> switchPeriod s period = Inr (s\<lparr>currentPeriod := period\<rparr>)"
  by (simp add: switchPeriod_def getProperty_def)

lemma switchPeriod_inherited:
  "statsByPeriod s period = None \<Longrightarrow> period \<in> set Object_prototype_keys \<Longrightarrow>
   switchPeriod s period = Inr (s\<lparr>currentPeriod := period\<rparr>)"
  by (simp add: switchPeriod_def getProperty_def)

lemma switchPeriod_throws_iff:
  "(switchPeriod s period = Inl e) =
     (e = InvalidPeriod \<and> period \<notin> dom (statsByPeriod s) \<and> period \<notin> set Object_prototype_keys)"
  by (auto simp: switchPeriod_def getProperty_def split: option.splits)

lemma switchPeriod_result:
  "switchPeriod s period = Inr s' \<Longrightarrow> s' = s\<lparr>currentPeriod := period\<rparr>"
  by (auto simp: switchPeriod_def getProperty_def split: option.splits if_splits)

subsection \<open>The counters and the first matching band\<close>

lemma updateCounters_band:
  "bandCount b (updateCounters r level c) =
     bandCount b c + (if firstMatchingBand r level = Some b then 1 else 0)"
  by (cases b) (simp_all add: updateCounters_def firstMatchingBand_def js_ge_def)

lemma updateCounters_no_band:
  "firstMatchingBand r level = None \<Longrightarrow> updateCounters r level c = c"
  by (auto simp: updateCounters_def firstMatchingBand_def js_ge_def split: if_splits)

subsection \<open>The highest and the lowest of two numbers\<close>

lemma js_upper_bound:
  assumes "h \<noteq> NaN" and "level \<noteq> NaN"
  shows "\<exists>m. updateHighest level (Some h) = Some m \<and> js_le h m \<and> js_le level m \<and>
             (m = h \<or> m = level)"
  using assms by (cases h; cases level) (auto simp: updateHighest_def js_gt_def)

lemma js_lower_bound:
  assumes "l \<noteq> NaN" and "level \<noteq> NaN"
  shows "\<exists>m. updateLowest level (Some l) = Some m \<and> js_le m l \<and> js_le m level \<and>
             (m = l \<or> m = level)"
  using assms by (cases l; cases level) (auto simp: updateLowest_def)

subsection \<open>Evaluation of the model on the sample inputs\<close>

lemmas eval_defs = addMeasurement_def getProperty_def updatePeriod_def updateCounters_def
  updateHighest_def updateLowest_def totalMeasurements_def updateAverage_def updateTimeStat_def
  totalForCategory_def Object_values_def timeCategories_def List.map_filter_def
  js_gt_def js_ge_def js_sub_def initialState_def emptyPeriod_def zeroCounters_def defaultRange_def
  switchPeriod_def Object_prototype_keys_def getCurrentPeriodStats_def Let_def
  exampleDateOffset_def oneReading_def oneReadingState_def gapRange_def

lemma oneReadingState_reached:
  "addMeasurement (initialState exampleDateOffset) (Fin 5.5) (Some beforeBreakfast) =
     Inr oneReadingState"
  by (simp add: eval_defs)

lemma oneReadingState_current:
  "statsByPeriod oneReadingState (currentPeriod oneReadingState) = Some oneReading"
  by (simp add: oneReadingState_def initialState_def)

text \<open>
  A level in the gap recorded into a period with no measurement: the count is zero and
  the average is 6.5 / 0, the positive infinity.
\<close>

lemma gap_level_on_empty_period:
  "addMeasurement ((initialState calc)\<lparr>range_bs := gapRange\<rparr>) (Fin 6.5) None =
     Inr ((initialState calc)
            \<lparr>range_bs := gapRange,
             statsByPeriod := (statsByPeriod (initialState calc))(''7'' \<mapsto>
               \<lparr>startDate = calc 7, endDate = calc 0, average = Some PInf,
                highest = Some (Fin 6.5), lowest = Some (Fin 6.5),
                counters = zeroCounters, timeStats = Map.empty\<rparr>)\<rparr>)"
  by (simp add: eval_defs)

text \<open>
  The source and the specification's formula agree on the first entry of a category, as
  long as the sum of the entries is finite.
\<close>

lemma updateTimeStat_first_entry:
  assumes "ts c = None" and "totalForCategory ts = Fin t"
  shows "updateTimeStat level n ts c = claimedTimeStat None n level"
  using assms by (cases level) (simp_all add: updateTimeStat_def claimedTimeStat_def js_sub_def)

subsection \<open>Sequences of calls\<close>

text \<open>
  No call adds or removes a key of the statistics. The current period of a state reached
  from the initial one is a key of the statistics or the name of an inherited property.
\<close>

lemma addMeasurement_result:
  assumes "addMeasurement s level tc = Inr s'"
  shows "\<exists>p. statsByPeriod s (currentPeriod s) = Some p \<and>
             s' = s\<lparr>statsByPeriod :=
                      (statsByPeriod s)(currentPeriod s \<mapsto> updatePeriod (range_bs s) level tc p)\<rparr>"
  using assms
  by (auto simp: addMeasurement_def getProperty_def split: option.splits if_splits)

lemma addMeasurement_dom:
  "addMeasurement s level tc = Inr s' \<Longrightarrow> dom (statsByPeriod s') = dom (statsByPeriod s)"
  by (auto simp: addMeasurement_def getProperty_def split: option.splits if_splits)

lemma run_call_dom:
  assumes "run_call s c = Inr s'"
  shows "dom (statsByPeriod s') = dom (statsByPeriod s)"
proof (cases c)
  case (AddMeasurement level tc)
  then show ?thesis using assms addMeasurement_dom [of s level tc s'] by simp
next
  case (SwitchPeriod period)
  then show ?thesis using assms switchPeriod_result [of s period s'] by simp
qed

lemma run_calls_dom:
  "run_calls s cs = Inr s' \<Longrightarrow> dom (statsByPeriod s') = dom (statsByPeriod s)"
proof (induction cs arbitrary: s)
  case Nil
  then show ?case by simp
next
  case (Cons c cs)
  then obtain s1 where s1: "run_call s c = Inr s1" and rest: "run_calls s1 cs = Inr s'"
    by (auto split: sum.splits)
  from Cons.IH [OF rest] run_call_dom [OF s1] show ?case by simp
qed

lemma initialState_dom:
  "dom (statsByPeriod (initialState calc)) = {''7'', ''14'', ''30'', ''90''}"
  by (auto simp: initialState_def)

lemma run_call_currentPeriod:
  assumes "run_call s c = Inr s'"
      and "currentPeriod s \<in> dom (statsByPeriod s) \<union> set Object_prototype_keys"
  shows "currentPeriod s' \<in> dom (statsByPeriod s') \<union> set Object_prototype_keys"
proof (cases c)
  case (AddMeasurement level tc)
  with assms(1) have r: "addMeasurement s level tc = Inr s'" by simp
  from addMeasurement_result [OF r] addMeasurement_dom [OF r] assms(2) show ?thesis by auto
next
  case (SwitchPeriod period)
  with assms(1) have r: "switchPeriod s period = Inr s'" by simp
  then show ?thesis
    by (auto simp: switchPeriod_def getProperty_def split: option.splits if_splits)
qed

lemma run_calls_currentPeriod:
  assumes "run_calls s cs = Inr s'"
      and "currentPeriod s \<in> dom (statsByPeriod s) \<union> set Object_prototype_keys"
  shows "currentPeriod s' \<in> dom (statsByPeriod s') \<union> set Object_prototype_keys"
  using assms
proof (induction cs arbitrary: s)
  case Nil
  then show ?case by simp
next
  case (Cons c cs)
  from Cons.prems(1) obtain s1 where
    s1: "run_call s c = Inr s1" and rest: "run_calls s1 cs = Inr s'"
    by (auto split: sum.splits)
  from run_call_currentPeriod [OF s1 Cons.prems(2)] Cons.IH [OF rest] show ?case by simp
qed

subsection \<open>The store and the value\<close>

text \<open>
  The record of the current period reads after the call as \<open>updatePeriod\<close> of what it read
  before; a record that is another object, with other counters and time statistics
  objects, reads as before. The call changes no reference. The state that was passed in
  reads after the call like the state that was returned: the caller's records are
  written into.
\<close>

lemma readState_initial: "readState (initialStore calc) initialStateRefs = initialState calc"
  by (auto simp: readState_def initialStore_def initialStateRefs_def initialState_def readPeriod_def
      emptyPeriodObject_def emptyPeriod_def fun_eq_iff)

lemma readPeriod_current:
  assumes "addMeasurement_store st state level tc = Inr (st', state')"
      and "periodRefs state (currentPeriodOf state) = Some r"
  shows "readPeriod st' r = updatePeriod (rangeOf state) level tc (readPeriod st r)"
  using assms
  by (cases tc)
     (auto simp: addMeasurement_store_def getProperty_def readPeriod_def updatePeriod_def Let_def)

lemma readPeriod_other:
  assumes "addMeasurement_store st state level tc = Inr (st', state')"
      and "periodRefs state (currentPeriodOf state) = Some r"
      and "r' \<noteq> r"
      and "countersRef (periodAt st r') \<noteq> countersRef (periodAt st r)"
      and "timeStatsRef (periodAt st r') \<noteq> timeStatsRef (periodAt st r)"
  shows "readPeriod st' r' = readPeriod st r'"
  using assms
  by (cases tc)
     (auto simp: addMeasurement_store_def getProperty_def readPeriod_def Let_def)

lemma addMeasurement_store_refs:
  assumes "addMeasurement_store st state level tc = Inr (st', state')"
  shows "periodRefs state' = periodRefs state \<and> currentPeriodOf state' = currentPeriodOf state \<and>
         rangeOf state' = rangeOf state \<and>
         countersRef (periodAt st' r) = countersRef (periodAt st r) \<and>
         timeStatsRef (periodAt st' r) = timeStatsRef (periodAt st r)"
  using assms
  by (cases tc)
     (auto simp: addMeasurement_store_def getProperty_def Let_def fun_eq_iff
           split: option.splits if_splits)

lemma addMeasurement_store_input_written:
  assumes "addMeasurement_store st state level tc = Inr (st', state')"
  shows "readState st' state = readState st' state'"
  using addMeasurement_store_refs [OF assms] by (simp add: readState_def)

lemma addMeasurement_store_result:
  assumes "addMeasurement_store st state level tc = Inr (st', state')"
  shows "\<exists>r. periodRefs state (currentPeriodOf state) = Some r"
  using assms
  by (auto simp: addMeasurement_store_def getProperty_def split: option.splits if_splits)

lemma addMeasurement_store_returns:
  assumes "periodRefs state (currentPeriodOf state) = Some r"
  shows "\<exists>st' state'. addMeasurement_store st state level tc = Inr (st', state')"
  using assms by (simp add: addMeasurement_store_def getProperty_def Let_def)

lemma sharing_sym: "sharing st s k k' = sharing st s k' k"
  by (auto simp: sharing_def split: option.splits)

lemma addMeasurement_store_sharing:
  assumes "addMeasurement_store st state level tc = Inr (st', state')"
  shows "sharing st' state' k k' = sharing st state k k'"
proof -
  note refs = addMeasurement_store_refs [OF assms]
  show ?thesis by (simp add: sharing_def refs split: option.splits)
qed

lemma switchPeriod_store_sharing:
  assumes "switchPeriod_store st state period = Inr (st', state')"
  shows "sharing st' state' k k' = sharing st state k k'"
  using assms
  by (auto simp: switchPeriod_store_def sharing_def split: js_property.splits option.splits)

lemma run_call_store_sharing:
  assumes "run_call_store st s c = Inr (st', s')"
  shows "sharing st' s' k k' = sharing st s k k'"
  using assms addMeasurement_store_sharing switchPeriod_store_sharing
  by (cases c) auto

lemma run_calls_store_sharing:
  assumes "run_calls_store st s cs = Inr (st', s')"
  shows "sharing st' s' k k' = sharing st s k k'"
  using assms
proof (induction cs arbitrary: st s)
  case Nil
  then show ?case by simp
next
  case (Cons c cs)
  from Cons.prems obtain st1 s1 where
    one: "run_call_store st s c = Inr (st1, s1)" and rest: "run_calls_store st1 s1 cs = Inr (st', s')"
    by (auto split: sum.splits)
  from Cons.IH [OF rest] run_call_store_sharing [OF one] show ?case by simp
qed

lemma initial_no_sharing:
  assumes "k \<noteq> k'"
  shows "\<not> sharing (initialStore calc) initialStateRefs k k'"
  using assms
  by (auto simp: sharing_def initialStore_def initialStateRefs_def emptyPeriodObject_def
      split: option.splits if_splits)

lemma reachable_no_sharing:
  assumes "run_calls_store (initialStore calc) initialStateRefs cs = Inr (st, s)" and "k \<noteq> k'"
  shows "\<not> sharing st s k k'"
  using run_calls_store_sharing [OF assms(1)] initial_no_sharing [OF assms(2)] by simp

lemma addMeasurement_store_refines:
  assumes ret: "addMeasurement_store st state level tc = Inr (st', state')"
      and sep: "\<forall>k. k \<noteq> currentPeriodOf state \<longrightarrow> \<not> sharing st state (currentPeriodOf state) k"
  shows "addMeasurement (readState st state) level tc = Inr (readState st' state')"
proof -
  from addMeasurement_store_result [OF ret] obtain r where
    r: "periodRefs state (currentPeriodOf state) = Some r" by blast
  note refs = addMeasurement_store_refs [OF ret]
  have cur: "statsByPeriod (readState st state) (currentPeriod (readState st state)) =
      Some (readPeriod st r)"
    by (simp add: readState_def r)
  have "statsByPeriod (readState st' state') k =
      ((statsByPeriod (readState st state))(currentPeriodOf state \<mapsto>
          updatePeriod (rangeOf state) level tc (readPeriod st r))) k" for k
  proof (cases "k = currentPeriodOf state")
    case True
    then show ?thesis
      by (simp add: readState_def refs r readPeriod_current [OF ret r])
  next
    case False
    show ?thesis
    proof (cases "periodRefs state k")
      case None
      with False show ?thesis by (simp add: readState_def refs)
    next
      case (Some r')
      from sep False have "\<not> sharing st state (currentPeriodOf state) k" by blast
      with r Some have d: "r' \<noteq> r"
        "countersRef (periodAt st r') \<noteq> countersRef (periodAt st r)"
        "timeStatsRef (periodAt st r') \<noteq> timeStatsRef (periodAt st r)"
        by (auto simp: sharing_def)
      from readPeriod_other [OF ret r d] False Some show ?thesis
        by (simp add: readState_def refs)
    qed
  qed
  then have m: "statsByPeriod (readState st' state') =
      (statsByPeriod (readState st state))(currentPeriodOf state \<mapsto>
          updatePeriod (rangeOf state) level tc (readPeriod st r))"
    by (rule ext)
  have "readState st' state' =
      (readState st state)\<lparr>statsByPeriod :=
         (statsByPeriod (readState st state))(currentPeriodOf state \<mapsto>
            updatePeriod (rangeOf state) level tc (readPeriod st r))\<rparr>"
    using m by (simp add: readState_def refs)
  moreover have "addMeasurement (readState st state) level tc =
      Inr ((readState st state)\<lparr>statsByPeriod :=
         (statsByPeriod (readState st state))(currentPeriodOf state \<mapsto>
            updatePeriod (rangeOf state) level tc (readPeriod st r))\<rparr>)"
    using addMeasurement_own [OF cur, of level tc] by (simp add: readState_def)
  ultimately show ?thesis by simp
qed

lemmas store_eval_defs = addMeasurement_store_def readState_def readPeriod_def initialStore_def
  initialStateRefs_def sharedStateRefs_def emptyPeriodObject_def sharing_def

section \<open>Claims\<close>

text \<open>
  C1, with the entry after lunch that the source computes. From a period 7 with no
  measurement (counters zero, average, highest and lowest null, no time statistics) and
  the default thresholds, recording 5.5 before breakfast and then 7.8 after lunch gives
  the counters normal 1, high 1, very high 0 and low 0, the average 6.65, the highest 7.8,
  the lowest 5.5, and the time statistics 5.5 before breakfast and 3.9 after lunch: the
  second reading is divided by the two measurements of the period. The rest of the state
  is arbitrary.
\<close>

theorem C1_two_readings:
  "run_calls
     (s\<lparr>range_bs := defaultRange,
        statsByPeriod := (statsByPeriod s)(''7'' \<mapsto> emptyPeriod start end_date),
        currentPeriod := ''7''\<rparr>)
     [AddMeasurement (Fin 5.5) (Some beforeBreakfast),
      AddMeasurement (Fin 7.8) (Some afterLunch)] =
   Inr (s\<lparr>range_bs := defaultRange,
          statsByPeriod := (statsByPeriod s)(''7'' \<mapsto>
            \<lparr>startDate = start, endDate = end_date, average = Some (Fin 6.65),
             highest = Some (Fin 7.8), lowest = Some (Fin 5.5),
             counters = \<lparr>veryHighCount = 0, highCount = 1, normalCount = 1, lowCount = 0\<rparr>,
             timeStats = [beforeBreakfast \<mapsto> Fin 5.5, afterLunch \<mapsto> Fin 3.9]\<rparr>),
          currentPeriod := ''7''\<rparr>)"
  by (simp add: eval_defs)

text \<open>
  C1, counterexample: on the initial state the run returns time statistics whose entry
  after lunch is 3.9, not 7.8.
\<close>

theorem C1_afterLunch_counterexample:
  "run_calls (initialState exampleDateOffset)
     [AddMeasurement (Fin 5.5) (Some beforeBreakfast),
      AddMeasurement (Fin 7.8) (Some afterLunch)] =
   Inr ((initialState exampleDateOffset)
          \<lparr>statsByPeriod := (statsByPeriod (initialState exampleDateOffset))(''7'' \<mapsto>
             \<lparr>startDate = ''2024-03-25'', endDate = ''2024-04-01'', average = Some (Fin 6.65),
              highest = Some (Fin 7.8), lowest = Some (Fin 5.5),
              counters = \<lparr>veryHighCount = 0, highCount = 1, normalCount = 1, lowCount = 0\<rparr>,
              timeStats = [beforeBreakfast \<mapsto> Fin 5.5, afterLunch \<mapsto> Fin 3.9]\<rparr>)\<rparr>) \<and>
   [beforeBreakfast \<mapsto> Fin 5.5, afterLunch \<mapsto> Fin 3.9] afterLunch \<noteq> Some (Fin 7.8)"
  by (simp add: eval_defs)

text \<open>
  C2. The specification gives the new average of the category as
  \<^verbatim>\<open>(oldCategoryAvg * (n - 1) + level) / n\<close>. The source multiplies the old average by
  the sum of all the averages of the time statistics minus one. A second reading of 5.5
  before breakfast, after a first one of 5.5, stores (5.5 * (5.5 - 1) + 5.5) / 2 = 15.125
  where the specification's formula gives (5.5 * (2 - 1) + 5.5) / 2 = 5.5.
\<close>

theorem C2_second_reading_of_a_category:
  "addMeasurement oneReadingState (Fin 5.5) (Some beforeBreakfast) =
     Inr (oneReadingState
            \<lparr>statsByPeriod := (statsByPeriod oneReadingState)(''7'' \<mapsto>
               \<lparr>startDate = ''2024-03-25'', endDate = ''2024-04-01'', average = Some (Fin 5.5),
                highest = Some (Fin 5.5), lowest = Some (Fin 5.5),
                counters = \<lparr>veryHighCount = 0, highCount = 0, normalCount = 2, lowCount = 0\<rparr>,
                timeStats = [beforeBreakfast \<mapsto> Fin 15.125]\<rparr>)\<rparr>) \<and>
   claimedTimeStat (timeStats oneReading beforeBreakfast) 2 (Fin 5.5) = Fin 5.5"
  by (simp add: eval_defs claimedTimeStat_def numeral_2_eq_2)

text \<open>
  C3. For every thresholds configuration and every level, \<^verbatim>\<open>addMeasurement\<close> tests the
  bands in the order very high, high, normal, low and increments the counter of the first
  band that matches and no other counter: each band's counter grows by one when the band
  is the first match and stays as it was otherwise. With the default thresholds the level
  6, the lower bound of high and the upper bound of normal, is in the high band. The call
  returns whenever the current period is a key of the statistics.
\<close>

theorem C3_first_matching_band:
  assumes "statsByPeriod state (currentPeriod state) = Some period"
  shows "(\<exists>state' period'.
            addMeasurement state level timeCategory = Inr state' \<and>
            statsByPeriod state' (currentPeriod state) = Some period' \<and>
            (\<forall>b. bandCount b (counters period') =
                 bandCount b (counters period) +
                 (if firstMatchingBand (range_bs state) level = Some b then 1 else 0))) \<and>
         firstMatchingBand defaultRange (Fin 6) = Some HighBand"
proof -
  let ?p' = "updatePeriod (range_bs state) level timeCategory period"
  let ?s' = "state\<lparr>statsByPeriod := (statsByPeriod state)(currentPeriod state \<mapsto> ?p')\<rparr>"
  have "addMeasurement state level timeCategory = Inr ?s'"
    using assms by (rule addMeasurement_own)
  moreover have "statsByPeriod ?s' (currentPeriod state) = Some ?p'"
    by simp
  moreover have "\<forall>b. bandCount b (counters ?p') =
       bandCount b (counters period) +
       (if firstMatchingBand (range_bs state) level = Some b then 1 else 0)"
    by (simp add: counters_updatePeriod updateCounters_band)
  moreover have "firstMatchingBand defaultRange (Fin 6) = Some HighBand"
    by (simp add: firstMatchingBand_def defaultRange_def js_gt_def)
  ultimately show ?thesis by blast
qed

text \<open>
  C3, witness: the level 6 recorded into the initial state increments the high counter and
  leaves the normal counter at zero.
\<close>

theorem C3_first_matching_band_witness:
  "statsByPeriod (initialState exampleDateOffset) (currentPeriod (initialState exampleDateOffset)) =
     Some (emptyPeriod ''2024-03-25'' ''2024-04-01'') \<and>
   (\<exists>state' period'.
      addMeasurement (initialState exampleDateOffset) (Fin 6) None = Inr state' \<and>
      statsByPeriod state' ''7'' = Some period' \<and>
      veryHighCount (counters period') = 0 \<and> highCount (counters period') = 1 \<and>
      normalCount (counters period') = 0 \<and> lowCount (counters period') = 0)"
proof -
  let ?s = "initialState exampleDateOffset"
  let ?p = "emptyPeriod ''2024-03-25'' ''2024-04-01''"
  have h: "statsByPeriod ?s (currentPeriod ?s) = Some ?p"
    by (simp add: initialState_def exampleDateOffset_def)
  have cur: "currentPeriod ?s = ''7''"
    by (simp add: initialState_def)
  have rng: "range_bs ?s = defaultRange"
    by (simp add: initialState_def)
  from C3_first_matching_band [OF h, of "Fin 6" None]
  obtain state' period' where
    r: "addMeasurement ?s (Fin 6) None = Inr state'"
      "statsByPeriod state' ''7'' = Some period'"
    and b: "\<And>b. bandCount b (counters period') =
         bandCount b (counters ?p) + (if Some HighBand = Some b then 1 else 0)"
    unfolding cur rng by auto
  have "veryHighCount (counters period') = 0" "highCount (counters period') = 1"
       "normalCount (counters period') = 0" "lowCount (counters period') = 0"
    using b [of VeryHighBand] b [of HighBand] b [of NormalBand] b [of LowBand]
    by (simp_all add: emptyPeriod_def zeroCounters_def)
  with h r show ?thesis by blast
qed

text \<open>
  C4. \<^verbatim>\<open>switchPeriod\<close> tests the truthiness of \<^verbatim>\<open>state.statsByPeriod[period]\<close>, and
  the name of a property inherited from \<^verbatim>\<open>Object.prototype\<close> passes the test: called on
  the initial state with the label toString, which is not a key of the statistics, the
  function raises no error and returns a state whose current period is toString.
\<close>

theorem C4_switchPeriod_inherited_key:
  "switchPeriod (initialState calc) ''toString'' =
     Inr ((initialState calc)\<lparr>currentPeriod := ''toString''\<rparr>) \<and>
   ''toString'' \<notin> dom (statsByPeriod (initialState calc))"
  by (simp add: eval_defs)

text \<open>
  C5, on the states that share nothing with the current period. For every state, level
  and optional time category, when \<^verbatim>\<open>addMeasurement\<close> returns, the thresholds and the
  current period of the returned state are those of the input state, and so are the
  statistics under every other label that does not share its record, its counters object
  or its time statistics object with the current period. The input state is read in the
  store before the call and the returned state in the store after it.
\<close>

theorem C5_frame_without_sharing:
  assumes "addMeasurement_store st state level timeCategory = Inr (st', state')"
      and "k \<noteq> currentPeriodOf state"
      and "\<not> sharing st state (currentPeriodOf state) k"
  shows "range_bs (readState st' state') = range_bs (readState st state) \<and>
         currentPeriod (readState st' state') = currentPeriod (readState st state) \<and>
         statsByPeriod (readState st' state') k = statsByPeriod (readState st state) k"
proof -
  from addMeasurement_store_result [OF assms(1)] obtain r where
    r: "periodRefs state (currentPeriodOf state) = Some r" by blast
  note refs = addMeasurement_store_refs [OF assms(1)]
  have "statsByPeriod (readState st' state') k = statsByPeriod (readState st state) k"
  proof (cases "periodRefs state k")
    case None
    then show ?thesis by (simp add: readState_def refs)
  next
    case (Some r')
    with r assms(3) have d: "r' \<noteq> r"
      "countersRef (periodAt st r') \<noteq> countersRef (periodAt st r)"
      "timeStatsRef (periodAt st r') \<noteq> timeStatsRef (periodAt st r)"
      by (auto simp: sharing_def)
    from readPeriod_other [OF assms(1) r d] Some show ?thesis
      by (simp add: readState_def refs)
  qed
  then show ?thesis by (simp add: readState_def refs)
qed

text \<open>
  C5, witness: in the initial state no label shares with period 7; recording 5.5 before
  breakfast leaves the statistics of period 14, the thresholds and the current period as
  they were.
\<close>

theorem C5_frame_without_sharing_witness:
  "(\<exists>st' state'.
      addMeasurement_store (initialStore exampleDateOffset) initialStateRefs (Fin 5.5)
        (Some beforeBreakfast) = Inr (st', state') \<and>
      range_bs (readState st' state') = defaultRange \<and>
      currentPeriod (readState st' state') = ''7'' \<and>
      statsByPeriod (readState st' state') ''14'' =
        Some (emptyPeriod ''2024-03-18'' ''2024-04-01'')) \<and>
   ''14'' \<noteq> currentPeriodOf initialStateRefs \<and>
   \<not> sharing (initialStore exampleDateOffset) initialStateRefs
       (currentPeriodOf initialStateRefs) ''14''"
proof -
  let ?st = "initialStore exampleDateOffset"
  have h2: "''14'' \<noteq> currentPeriodOf initialStateRefs"
    by (simp add: initialStateRefs_def)
  have h3: "\<not> sharing ?st initialStateRefs (currentPeriodOf initialStateRefs) ''14''"
    by (simp add: store_eval_defs)
  have r: "periodRefs initialStateRefs (currentPeriodOf initialStateRefs) = Some 0"
    by (simp add: initialStateRefs_def)
  from addMeasurement_store_returns [OF r, of ?st "Fin 5.5" "Some beforeBreakfast"]
  obtain st' state' where
    h1: "addMeasurement_store ?st initialStateRefs (Fin 5.5) (Some beforeBreakfast) =
        Inr (st', state')"
    by blast
  have old: "range_bs (readState ?st initialStateRefs) = defaultRange"
    "currentPeriod (readState ?st initialStateRefs) = ''7''"
    "statsByPeriod (readState ?st initialStateRefs) ''14'' =
       Some (emptyPeriod ''2024-03-18'' ''2024-04-01'')"
    by (simp_all add: readState_initial initialState_def exampleDateOffset_def)
  from C5_frame_without_sharing [OF h1 h2 h3] old
  have "range_bs (readState st' state') = defaultRange \<and>
      currentPeriod (readState st' state') = ''7'' \<and>
      statsByPeriod (readState st' state') ''14'' =
        Some (emptyPeriod ''2024-03-18'' ''2024-04-01'')"
    by simp
  with h1 h2 h3 show ?thesis by blast
qed

text \<open>
  C5, counterexample: in a state whose labels 7 and 14 hold the same record, recording 5.5
  into the current period 7 changes what the state holds under 14, from no measurement to
  one.
\<close>

theorem C5_shared_record_counterexample:
  "(case addMeasurement_store (initialStore exampleDateOffset) sharedStateRefs (Fin 5.5) None of
      Inl e \<Rightarrow> None
    | Inr (st', state') \<Rightarrow> statsByPeriod (readState st' state') ''14'') =
     Some \<lparr>startDate = ''2024-03-25'', endDate = ''2024-04-01'', average = Some (Fin 5.5),
           highest = Some (Fin 5.5), lowest = Some (Fin 5.5),
           counters = \<lparr>veryHighCount = 0, highCount = 0, normalCount = 1, lowCount = 0\<rparr>,
           timeStats = Map.empty\<rparr> \<and>
   statsByPeriod (readState (initialStore exampleDateOffset) sharedStateRefs) ''14'' =
     Some (emptyPeriod ''2024-03-25'' ''2024-04-01'') \<and>
   currentPeriod (readState (initialStore exampleDateOffset) sharedStateRefs) = ''7''"
  by (simp add: store_eval_defs eval_defs)

text \<open>
  C6. For every call of \<^verbatim>\<open>addMeasurement\<close> on a state whose current period is a key
  of the statistics: a highest that was null becomes the level, and so does a lowest that
  was null; otherwise the highest changes, to the level, only when the level is greater
  than it, and the lowest only when the level is less than it. On finite numbers the new
  highest is the maximum of the old highest and the level, and the new lowest is the
  minimum of the old lowest and the level; on all numbers but NaN, the infinities
  included, the new highest is the one of the two that is above both and the new lowest
  the one that is below both.
\<close>

theorem C6_highest_lowest:
  assumes "statsByPeriod state (currentPeriod state) = Some period"
  shows "\<exists>state' period'.
           addMeasurement state level timeCategory = Inr state' \<and>
           statsByPeriod state' (currentPeriod state) = Some period' \<and>
           (highest period = None \<longrightarrow> highest period' = Some level) \<and>
           (lowest period = None \<longrightarrow> lowest period' = Some level) \<and>
           (\<forall>h. highest period = Some h \<longrightarrow>
                highest period' = Some (if js_gt level h then level else h)) \<and>
           (\<forall>l. lowest period = Some l \<longrightarrow>
                lowest period' = Some (if js_lt level l then level else l)) \<and>
           (\<forall>h x. highest period = Some (Fin h) \<and> level = Fin x \<longrightarrow>
                highest period' = Some (Fin (max h x))) \<and>
           (\<forall>l x. lowest period = Some (Fin l) \<and> level = Fin x \<longrightarrow>
                lowest period' = Some (Fin (min l x))) \<and>
           (\<forall>h. highest period = Some h \<and> h \<noteq> NaN \<and> level \<noteq> NaN \<longrightarrow>
                (\<exists>m. highest period' = Some m \<and> js_le h m \<and> js_le level m \<and>
                     (m = h \<or> m = level))) \<and>
           (\<forall>l. lowest period = Some l \<and> l \<noteq> NaN \<and> level \<noteq> NaN \<longrightarrow>
                (\<exists>m. lowest period' = Some m \<and> js_le m l \<and> js_le m level \<and>
                     (m = l \<or> m = level)))"
proof -
  let ?p' = "updatePeriod (range_bs state) level timeCategory period"
  let ?s' = "state\<lparr>statsByPeriod := (statsByPeriod state)(currentPeriod state \<mapsto> ?p')\<rparr>"
  have ret: "addMeasurement state level timeCategory = Inr ?s'"
    using assms by (rule addMeasurement_own)
  have cur: "statsByPeriod ?s' (currentPeriod state) = Some ?p'"
    by simp
  have hi: "highest ?p' = updateHighest level (highest period)"
    by (rule highest_updatePeriod)
  have lo: "lowest ?p' = updateLowest level (lowest period)"
    by (rule lowest_updatePeriod)
  have f1: "highest period = None \<longrightarrow> highest ?p' = Some level"
    by (simp add: hi updateHighest_def)
  have f2: "lowest period = None \<longrightarrow> lowest ?p' = Some level"
    by (simp add: lo updateLowest_def)
  have f3: "\<forall>h. highest period = Some h \<longrightarrow>
      highest ?p' = Some (if js_gt level h then level else h)"
    by (simp add: hi updateHighest_def)
  have f4: "\<forall>l. lowest period = Some l \<longrightarrow>
      lowest ?p' = Some (if js_lt level l then level else l)"
    by (simp add: lo updateLowest_def)
  have f5: "\<forall>h x. highest period = Some (Fin h) \<and> level = Fin x \<longrightarrow>
      highest ?p' = Some (Fin (max h x))"
    by (auto simp: highest_updatePeriod updateHighest_def js_gt_def max_def)
  have f6: "\<forall>l x. lowest period = Some (Fin l) \<and> level = Fin x \<longrightarrow>
      lowest ?p' = Some (Fin (min l x))"
    by (auto simp: lowest_updatePeriod updateLowest_def min_def)
  have f7: "\<forall>h. highest period = Some h \<and> h \<noteq> NaN \<and> level \<noteq> NaN \<longrightarrow>
      (\<exists>m. highest ?p' = Some m \<and> js_le h m \<and> js_le level m \<and> (m = h \<or> m = level))"
    by (auto simp: highest_updatePeriod js_upper_bound)
  have f8: "\<forall>l. lowest period = Some l \<and> l \<noteq> NaN \<and> level \<noteq> NaN \<longrightarrow>
      (\<exists>m. lowest ?p' = Some m \<and> js_le m l \<and> js_le m level \<and> (m = l \<or> m = level))"
    by (auto simp: lowest_updatePeriod js_lower_bound)
  show ?thesis
    by (rule exI [of _ ?s'], rule exI [of _ ?p'])
       (intro conjI ret cur f1 f2 f3 f4 f5 f6 f7 f8)
qed

text \<open>
  C6, witness: the first reading sets both bounds to 5.5; the second, 7.8, raises the
  highest and leaves the lowest.
\<close>

theorem C6_highest_lowest_witness:
  "statsByPeriod (initialState exampleDateOffset) (currentPeriod (initialState exampleDateOffset)) =
     Some (emptyPeriod ''2024-03-25'' ''2024-04-01'') \<and>
   (\<exists>state' period'.
      addMeasurement (initialState exampleDateOffset) (Fin 5.5) (Some beforeBreakfast) = Inr state' \<and>
      statsByPeriod state' ''7'' = Some period' \<and>
      highest period' = Some (Fin 5.5) \<and> lowest period' = Some (Fin 5.5)) \<and>
   statsByPeriod oneReadingState (currentPeriod oneReadingState) = Some oneReading \<and>
   (\<exists>state' period'.
      addMeasurement oneReadingState (Fin 7.8) (Some afterLunch) = Inr state' \<and>
      statsByPeriod state' ''7'' = Some period' \<and>
      highest period' = Some (Fin 7.8) \<and> lowest period' = Some (Fin 5.5))"
proof -
  let ?s = "initialState exampleDateOffset"
  let ?p = "emptyPeriod ''2024-03-25'' ''2024-04-01''"
  have h0: "statsByPeriod ?s (currentPeriod ?s) = Some ?p"
    by (simp add: initialState_def exampleDateOffset_def)
  have c0: "currentPeriod ?s = ''7''"
    by (simp add: initialState_def)
  have n0: "highest ?p = None" "lowest ?p = None"
    by (simp_all add: emptyPeriod_def)
  from C6_highest_lowest [OF h0, of "Fin 5.5" "Some beforeBreakfast"] n0
  have first: "\<exists>state' period'.
      addMeasurement ?s (Fin 5.5) (Some beforeBreakfast) = Inr state' \<and>
      statsByPeriod state' ''7'' = Some period' \<and>
      highest period' = Some (Fin 5.5) \<and> lowest period' = Some (Fin 5.5)"
    unfolding c0 by blast
  have h1: "statsByPeriod oneReadingState (currentPeriod oneReadingState) = Some oneReading"
    by (rule oneReadingState_current)
  have c1: "currentPeriod oneReadingState = ''7''"
    by (simp add: oneReadingState_def initialState_def)
  have n1: "highest oneReading = Some (Fin 5.5)" "lowest oneReading = Some (Fin 5.5)"
    by (simp_all add: oneReading_def)
  from C6_highest_lowest [OF h1, of "Fin 7.8" "Some afterLunch"]
  obtain state' period' where
    r: "addMeasurement oneReadingState (Fin 7.8) (Some afterLunch) = Inr state'"
       "statsByPeriod state' ''7'' = Some period'"
    and hi: "\<forall>h x. highest oneReading = Some (Fin h) \<and> Fin 7.8 = Fin x \<longrightarrow>
        highest period' = Some (Fin (max h x))"
    and lo: "\<forall>l x. lowest oneReading = Some (Fin l) \<and> Fin 7.8 = Fin x \<longrightarrow>
        lowest period' = Some (Fin (min l x))"
    unfolding c1 by blast
  from hi n1 have "highest period' = Some (Fin (max 5.5 7.8))" by blast
  moreover from lo n1 have "lowest period' = Some (Fin (min 5.5 7.8))" by blast
  ultimately have "highest period' = Some (Fin 7.8)" "lowest period' = Some (Fin 5.5)"
    by simp_all
  with r have second: "\<exists>state' period'.
      addMeasurement oneReadingState (Fin 7.8) (Some afterLunch) = Inr state' \<and>
      statsByPeriod state' ''7'' = Some period' \<and>
      highest period' = Some (Fin 7.8) \<and> lowest period' = Some (Fin 5.5)"
    by blast
  from h0 first h1 second show ?thesis by blast
qed

text \<open>
  C7. For every state whose current period is a key of the statistics and every level
  that matches none of the four band tests, \<^verbatim>\<open>addMeasurement\<close> returns, leaves the four
  counters as they were and still updates the highest, the lowest and the average of the
  period. A highest or lowest that was null becomes the level; a highest that was set
  becomes the level when it is less than the level, and a lowest that was set becomes the
  level when the level is less than it. The average becomes (old average * (n - 1) +
  level) / n in JavaScript's arithmetic, with 0 for a null average and \<open>n\<close> the unchanged
  sum of the four counters: on finite numbers and a positive \<open>n\<close> that is the real
  quotient, and on a period with no measurement a positive level divided by zero, the
  positive infinity.
\<close>

theorem C7_gap_level:
  assumes "statsByPeriod state (currentPeriod state) = Some period"
      and "firstMatchingBand (range_bs state) level = None"
  shows "\<exists>state' period'.
           addMeasurement state level timeCategory = Inr state' \<and>
           statsByPeriod state' (currentPeriod state) = Some period' \<and>
           counters period' = counters period \<and>
           (highest period = None \<longrightarrow> highest period' = Some level) \<and>
           (\<forall>h. highest period = Some h \<longrightarrow>
                highest period' = Some (if js_lt h level then level else h)) \<and>
           (lowest period = None \<longrightarrow> lowest period' = Some level) \<and>
           (\<forall>l. lowest period = Some l \<longrightarrow>
                lowest period' = Some (if js_lt level l then level else l)) \<and>
           (let n = veryHighCount (counters period) + highCount (counters period) +
                    normalCount (counters period) + lowCount (counters period)
            in average period' =
                 Some (js_div_count
                   (js_add
                     (js_mul (case average period of None \<Rightarrow> Fin 0 | Some a \<Rightarrow> a)
                        (Fin (real n - 1)))
                     level)
                   n) \<and>
               (\<forall>a x. level = Fin x \<and> 0 < n \<and>
                      (average period = Some (Fin a) \<or> average period = None \<and> a = 0) \<longrightarrow>
                  average period' = Some (Fin ((a * (real n - 1) + x) / real n))) \<and>
               (\<forall>x. level = Fin x \<and> n = 0 \<and> average period = None \<and> 0 < x \<longrightarrow>
                  average period' = Some PInf))"
proof -
  let ?p' = "updatePeriod (range_bs state) level timeCategory period"
  let ?s' = "state\<lparr>statsByPeriod := (statsByPeriod state)(currentPeriod state \<mapsto> ?p')\<rparr>"
  let ?n = "veryHighCount (counters period) + highCount (counters period) +
            normalCount (counters period) + lowCount (counters period)"
  have same: "updateCounters (range_bs state) level (counters period) = counters period"
    using assms(2) by (rule updateCounters_no_band)
  have ret: "addMeasurement state level timeCategory = Inr ?s'"
    using assms(1) by (rule addMeasurement_own)
  have cur: "statsByPeriod ?s' (currentPeriod state) = Some ?p'"
    by simp
  have f1: "counters ?p' = counters period"
    by (simp add: counters_updatePeriod same)
  have f2: "highest period = None \<longrightarrow> highest ?p' = Some level"
    by (simp add: highest_updatePeriod updateHighest_def)
  have f3: "\<forall>h. highest period = Some h \<longrightarrow>
      highest ?p' = Some (if js_lt h level then level else h)"
    by (simp add: highest_updatePeriod updateHighest_def js_gt_def)
  have f4: "lowest period = None \<longrightarrow> lowest ?p' = Some level"
    by (simp add: lowest_updatePeriod updateLowest_def)
  have f5: "\<forall>l. lowest period = Some l \<longrightarrow>
      lowest ?p' = Some (if js_lt level l then level else l)"
    by (simp add: lowest_updatePeriod updateLowest_def)
  have avg: "average ?p' =
      Some (js_div_count
        (js_add (js_mul (case average period of None \<Rightarrow> Fin 0 | Some a \<Rightarrow> a) (Fin (real ?n - 1)))
           level) ?n)"
    by (cases "average period")
       (simp_all add: average_updatePeriod same updateAverage_def totalMeasurements_def)
  have fin: "\<forall>a x. level = Fin x \<and> 0 < ?n \<and>
        (average period = Some (Fin a) \<or> average period = None \<and> a = 0) \<longrightarrow>
      average ?p' = Some (Fin ((a * (real ?n - 1) + x) / real ?n))"
    unfolding avg by auto
  have inf: "\<forall>x. level = Fin x \<and> ?n = 0 \<and> average period = None \<and> 0 < x \<longrightarrow>
      average ?p' = Some PInf"
    unfolding avg by auto
  have f6: "let n = ?n
      in average ?p' =
           Some (js_div_count
             (js_add
               (js_mul (case average period of None \<Rightarrow> Fin 0 | Some a \<Rightarrow> a) (Fin (real n - 1)))
               level)
             n) \<and>
         (\<forall>a x. level = Fin x \<and> 0 < n \<and>
                (average period = Some (Fin a) \<or> average period = None \<and> a = 0) \<longrightarrow>
            average ?p' = Some (Fin ((a * (real n - 1) + x) / real n))) \<and>
         (\<forall>x. level = Fin x \<and> n = 0 \<and> average period = None \<and> 0 < x \<longrightarrow>
            average ?p' = Some PInf)"
    unfolding Let_def using avg fin inf by blast
  show ?thesis
    by (rule exI [of _ ?s'], rule exI [of _ ?p']) (intro conjI ret cur f1 f2 f3 f4 f5 f6)
qed

text \<open>
  C7, witness: with thresholds that leave a gap between 6 and 7, the level 6.5 recorded
  after one reading of 5.5 changes no counter, raises the highest to 6.5 and replaces the
  average 5.5 by 6.5.
\<close>

theorem C7_gap_level_witness:
  "statsByPeriod (oneReadingState\<lparr>range_bs := gapRange\<rparr>)
     (currentPeriod (oneReadingState\<lparr>range_bs := gapRange\<rparr>)) = Some oneReading \<and>
   firstMatchingBand (range_bs (oneReadingState\<lparr>range_bs := gapRange\<rparr>)) (Fin 6.5) = None \<and>
   (\<exists>state' period'.
      addMeasurement (oneReadingState\<lparr>range_bs := gapRange\<rparr>) (Fin 6.5) None = Inr state' \<and>
      statsByPeriod state' ''7'' = Some period' \<and>
      counters period' =
        \<lparr>veryHighCount = 0, highCount = 0, normalCount = 1, lowCount = 0\<rparr> \<and>
      highest period' = Some (Fin 6.5) \<and> lowest period' = Some (Fin 5.5) \<and>
      average period' = Some (Fin 6.5))"
proof -
  let ?s = "oneReadingState\<lparr>range_bs := gapRange\<rparr>"
  have h1: "statsByPeriod ?s (currentPeriod ?s) = Some oneReading"
    by (simp add: oneReadingState_def initialState_def)
  have h2: "firstMatchingBand (range_bs ?s) (Fin 6.5) = None"
    by (simp add: firstMatchingBand_def gapRange_def js_gt_def)
  have c: "currentPeriod ?s = ''7''"
    by (simp add: oneReadingState_def initialState_def)
  from C7_gap_level [OF h1 h2, of None]
  obtain state' period' where
    r: "addMeasurement ?s (Fin 6.5) None = Inr state'"
       "statsByPeriod state' ''7'' = Some period'"
    and f: "counters period' = counters oneReading"
       "\<forall>h. highest oneReading = Some h \<longrightarrow>
           highest period' = Some (if js_lt h (Fin 6.5) then Fin 6.5 else h)"
       "\<forall>l. lowest oneReading = Some l \<longrightarrow>
           lowest period' = Some (if js_lt (Fin 6.5) l then Fin 6.5 else l)"
       "average period' =
          Some (js_div_count
            (js_add
              (js_mul (case average oneReading of None \<Rightarrow> Fin 0 | Some a \<Rightarrow> a)
                 (Fin (real (veryHighCount (counters oneReading) + highCount (counters oneReading) +
                    normalCount (counters oneReading) + lowCount (counters oneReading)) - 1)))
              (Fin 6.5))
            (veryHighCount (counters oneReading) + highCount (counters oneReading) +
               normalCount (counters oneReading) + lowCount (counters oneReading)))"
    unfolding c Let_def by blast
  from f have "counters period' =
      \<lparr>veryHighCount = 0, highCount = 0, normalCount = 1, lowCount = 0\<rparr>"
    "highest period' = Some (Fin 6.5)" "lowest period' = Some (Fin 5.5)"
    "average period' = Some (Fin 6.5)"
    by (simp_all add: oneReading_def)
  with r have "\<exists>state' period'.
      addMeasurement ?s (Fin 6.5) None = Inr state' \<and>
      statsByPeriod state' ''7'' = Some period' \<and>
      counters period' =
        \<lparr>veryHighCount = 0, highCount = 0, normalCount = 1, lowCount = 0\<rparr> \<and>
      highest period' = Some (Fin 6.5) \<and> lowest period' = Some (Fin 5.5) \<and>
      average period' = Some (Fin 6.5)"
    by blast
  with h1 h2 show ?thesis by blast
qed

text \<open>
  C8. For every state \<open>s\<close> and every label \<open>L\<close> that is a key of the statistics of
  \<open>s\<close>, \<^verbatim>\<open>switchPeriod\<close> returns without an error and \<^verbatim>\<open>getCurrentPeriodStats\<close> of
  its result is the statistics record that \<open>s\<close> holds under \<open>L\<close>.
\<close>

theorem C8_switch_then_get:
  assumes "statsByPeriod s L = Some p"
  shows "\<exists>s'. switchPeriod s L = Inr s' \<and> getCurrentPeriodStats s' = Own p"
proof -
  have "switchPeriod s L = Inr (s\<lparr>currentPeriod := L\<rparr>)"
    using assms by (rule switchPeriod_own)
  moreover have "getCurrentPeriodStats (s\<lparr>currentPeriod := L\<rparr>) = Own p"
    using assms by (simp add: getCurrentPeriodStats_def getProperty_def)
  ultimately show ?thesis by blast
qed

text \<open>
  C8, witness: switching the initial state to period 14 and reading the current
  statistics gives the empty statistics of period 14.
\<close>

theorem C8_switch_then_get_witness:
  "statsByPeriod (initialState exampleDateOffset) ''14'' =
     Some (emptyPeriod ''2024-03-18'' ''2024-04-01'') \<and>
   (\<exists>s'. switchPeriod (initialState exampleDateOffset) ''14'' = Inr s' \<and>
         getCurrentPeriodStats s' = Own (emptyPeriod ''2024-03-18'' ''2024-04-01''))"
proof -
  have h: "statsByPeriod (initialState exampleDateOffset) ''14'' =
      Some (emptyPeriod ''2024-03-18'' ''2024-04-01'')"
    by (simp add: initialState_def exampleDateOffset_def)
  from C8_switch_then_get [OF h] h show ?thesis by blast
qed

text \<open>
  C9. From the initial state the one call \<^verbatim>\<open>switchPeriod(state, "toString")\<close> returns,
  and the current period of its result is not a key of the statistics; the next
  \<^verbatim>\<open>addMeasurement\<close> throws a TypeError. The key set itself never changes
  (\<open>run_calls_dom\<close>, \<open>initialState_dom\<close>).
\<close>

theorem C9_currentPeriod_not_a_key:
  "run_calls (initialState calc) [SwitchPeriod ''toString''] =
     Inr ((initialState calc)\<lparr>currentPeriod := ''toString''\<rparr>) \<and>
   currentPeriod ((initialState calc)\<lparr>currentPeriod := ''toString''\<rparr>) \<notin>
     dom (statsByPeriod ((initialState calc)\<lparr>currentPeriod := ''toString''\<rparr>)) \<and>
   run_calls (initialState calc) [SwitchPeriod ''toString'', AddMeasurement (Fin 5.5) None] =
     Inl TypeError"
  by (simp add: eval_defs)

text \<open>
  C10. For every state whose current period is a key of the statistics, every level and
  every time category \<open>c\<close>, \<^verbatim>\<open>addMeasurement\<close> changes at most the entry of \<open>c\<close> in the
  time statistics of the current period: the entry of every other category is as it was,
  and a call without a time category leaves the whole mapping as it was.
\<close>

theorem C10_timeStats_frame:
  assumes "statsByPeriod state (currentPeriod state) = Some period"
  shows "\<exists>state' period'.
           addMeasurement state level timeCategory = Inr state' \<and>
           statsByPeriod state' (currentPeriod state) = Some period' \<and>
           (\<forall>c. timeCategory \<noteq> Some c \<longrightarrow> timeStats period' c = timeStats period c) \<and>
           (timeCategory = None \<longrightarrow> timeStats period' = timeStats period)"
proof -
  let ?p' = "updatePeriod (range_bs state) level timeCategory period"
  let ?s' = "state\<lparr>statsByPeriod := (statsByPeriod state)(currentPeriod state \<mapsto> ?p')\<rparr>"
  have ret: "addMeasurement state level timeCategory = Inr ?s'"
    using assms by (rule addMeasurement_own)
  have cur: "statsByPeriod ?s' (currentPeriod state) = Some ?p'"
    by simp
  have f1: "\<forall>c. timeCategory \<noteq> Some c \<longrightarrow> timeStats ?p' c = timeStats period c"
    by (cases timeCategory)
       (auto simp: timeStats_updatePeriod_None timeStats_updatePeriod_Some)
  have f2: "timeCategory = None \<longrightarrow> timeStats ?p' = timeStats period"
    by (simp add: timeStats_updatePeriod_None)
  show ?thesis
    by (rule exI [of _ ?s'], rule exI [of _ ?p']) (intro conjI ret cur f1 f2)
qed

text \<open>
  C10, witness: after one reading before breakfast, a reading after lunch keeps the entry
  before breakfast and adds none for a random time; a reading without a time category
  keeps the mapping.
\<close>

theorem C10_timeStats_frame_witness:
  "statsByPeriod oneReadingState (currentPeriod oneReadingState) = Some oneReading \<and>
   (\<exists>state' period'.
      addMeasurement oneReadingState (Fin 7.8) (Some afterLunch) = Inr state' \<and>
      statsByPeriod state' ''7'' = Some period' \<and>
      timeStats period' beforeBreakfast = Some (Fin 5.5) \<and>
      timeStats period' randomTime = None) \<and>
   (\<exists>state' period'.
      addMeasurement oneReadingState (Fin 7.8) None = Inr state' \<and>
      statsByPeriod state' ''7'' = Some period' \<and>
      timeStats period' = [beforeBreakfast \<mapsto> Fin 5.5])"
proof -
  have h: "statsByPeriod oneReadingState (currentPeriod oneReadingState) = Some oneReading"
    by (rule oneReadingState_current)
  have c: "currentPeriod oneReadingState = ''7''"
    by (simp add: oneReadingState_def initialState_def)
  have t: "timeStats oneReading = [beforeBreakfast \<mapsto> Fin 5.5]"
    by (simp add: oneReading_def)
  from C10_timeStats_frame [OF h, of "Fin 7.8" "Some afterLunch"]
  obtain s1 p1 where
    r1: "addMeasurement oneReadingState (Fin 7.8) (Some afterLunch) = Inr s1"
        "statsByPeriod s1 ''7'' = Some p1"
    and k1: "\<And>c. Some afterLunch \<noteq> Some c \<Longrightarrow> timeStats p1 c = timeStats oneReading c"
    unfolding c by blast
  have "timeStats p1 beforeBreakfast = Some (Fin 5.5)" "timeStats p1 randomTime = None"
    using k1 [of beforeBreakfast] k1 [of randomTime] by (simp_all add: t)
  with r1 have first: "\<exists>state' period'.
      addMeasurement oneReadingState (Fin 7.8) (Some afterLunch) = Inr state' \<and>
      statsByPeriod state' ''7'' = Some period' \<and>
      timeStats period' beforeBreakfast = Some (Fin 5.5) \<and>
      timeStats period' randomTime = None"
    by blast
  from C10_timeStats_frame [OF h, of "Fin 7.8" None]
  have second: "\<exists>state' period'.
      addMeasurement oneReadingState (Fin 7.8) None = Inr state' \<and>
      statsByPeriod state' ''7'' = Some period' \<and>
      timeStats period' = [beforeBreakfast \<mapsto> Fin 5.5]"
    unfolding c t by blast
  from h first second show ?thesis by blast
qed

end
